theory Spec2Isabelle
  imports Main
begin

section \<open>Values, errors and relation objects\<close>

text \<open>
  The embedding follows \<^verbatim>\<open>src/PyOpenWorm/neuron.py\<close>. An entity (a cell, a neuron) is
  identified by its name. A scope (the source's \<^verbatim>\<open>context\<close>) is an opaque identifier;
  \<open>None\<close> is Python's \<^verbatim>\<open>None\<close>, no scope attached.
\<close>

type_synonym cell = string
type_synonym ctx = "string option"

datatype pyval = PyNone | PyStr string | PyInt int | PyCell cell

text \<open>
  Keyword arguments (\<^verbatim>\<open>**kwargs\<close>): a Python dict in insertion order, as an association list.
\<close>

type_synonym kwargs = "(string \<times> pyval) list"

datatype error = TypeError | AssertionError | AttributeError

text \<open>
  Modelled from the spec: the class \<^verbatim>\<open>Connection\<close> (module \<^verbatim>\<open>PyOpenWorm.connection\<close>, not
  part of the sources). A relation object carries the scope of the class that built it
  and the attributes it was built with (\<^verbatim>\<open>pre_cell\<close>, \<^verbatim>\<open>post_cell\<close>, \<^verbatim>\<open>syntype\<close>, ...). The same
  object is a query pattern when \<^verbatim>\<open>load()\<close> is called on it.
\<close>

record Connection =
  conn_ctx :: ctx
  conn_args :: kwargs

text \<open>
  Modelled from the spec: the class object itself, plain (\<^verbatim>\<open>Connection\<close>) or scoped
  (\<^verbatim>\<open>Connection.contextualize(c)\<close>); contextualizing replaces the scope.
\<close>

datatype conn_class = ConnectionClass (class_ctx: ctx)

definition Connection_cls :: conn_class where
  "Connection_cls = ConnectionClass None"

fun cls_contextualize :: "ctx \<Rightarrow> conn_class \<Rightarrow> conn_class" where
  "cls_contextualize c (ConnectionClass _) = ConnectionClass c"

text \<open>
  The call \<^verbatim>\<open>cls(k1=v1, ..., **kwargs)\<close>. The keywords written at the call site are \<open>named\<close>.
  Python raises \<^verbatim>\<open>TypeError\<close> (multiple values for a keyword argument) when \<^verbatim>\<open>kwargs\<close>
  repeats one of them, whatever the callee is.
\<close>

definition new_Connection :: "conn_class \<Rightarrow> kwargs \<Rightarrow> kwargs \<Rightarrow> error + Connection" where
  "new_Connection cls named kw =
     (if list_ex (\<lambda>k. k \<in> set (map fst kw)) (map fst named) then Inl TypeError
      else Inr \<lparr>conn_ctx = class_ctx cls, conn_args = named @ kw\<rparr>)"

text \<open>
  Modelled from the spec: the attribute readers of a relation object.
  \<^verbatim>\<open>c.post_cell.get()\<close> yields the post endpoints the object holds, \<^verbatim>\<open>r.post_cell()\<close> and
  \<^verbatim>\<open>c.syntype.one()\<close> give the single value (\<^verbatim>\<open>None\<close> when there is none).
\<close>

definition post_cell_get :: "Connection \<Rightarrow> pyval list" where
  "post_cell_get c = (case map_of (conn_args c) ''post_cell'' of None \<Rightarrow> [] | Some v \<Rightarrow> [v])"

definition post_cell_call :: "Connection \<Rightarrow> pyval" where
  "post_cell_call r = (case map_of (conn_args r) ''post_cell'' of None \<Rightarrow> PyNone | Some v \<Rightarrow> v)"

definition syntype_one :: "Connection \<Rightarrow> pyval" where
  "syntype_one c = (case map_of (conn_args c) ''syntype'' of None \<Rightarrow> PyNone | Some v \<Rightarrow> v)"

text \<open>
  The relation store is a parameter of every operation that reads it: \<^verbatim>\<open>x.load()\<close> is
  \<open>db x\<close>, the persisted relations matching the pattern \<open>x\<close>, in the store's order.
\<close>

type_synonym store = "Connection \<Rightarrow> Connection list"

text \<open>
  Modelled from the spec: a store holding a list of persisted relations, answering a
  pattern with the relations of the pattern's scope that have every attribute the pattern
  binds. It is used for the concrete examples only; the general theorems hold for every store.
\<close>

definition matches :: "Connection \<Rightarrow> Connection \<Rightarrow> bool" where
  "matches q r =
     (conn_ctx r = conn_ctx q \<and>
      list_all (\<lambda>kv. map_of (conn_args r) (fst kv) = Some (snd kv)) (conn_args q))"

definition load_from :: "Connection list \<Rightarrow> store" where
  "load_from facts q = filter (matches q) facts"

section \<open>Properties\<close>

text \<open>
  The state of a \<^verbatim>\<open>Neighbor\<close> or a \<^verbatim>\<open>ConnectionProperty\<close>: the fields of the base class
  the source reads (\<^verbatim>\<open>owner\<close>, \<^verbatim>\<open>context\<close>) and the two the subclasses add
  (\<^verbatim>\<open>_conns\<close>, \<^verbatim>\<open>_conntype\<close>). A mutating method returns the updated record.
\<close>

record Property =
  prop_name :: string
  owner :: cell
  p_ctx :: ctx
  conns :: "Connection list"
  conntype :: conn_class

text \<open>
  \<^verbatim>\<open>Neighbor.__init__\<close> and \<^verbatim>\<open>ConnectionProperty.__init__\<close>. The scope \<open>c0\<close> is what the
  base class constructor leaves in \<^verbatim>\<open>self.context\<close>; \<open>own_ctx\<close> is \<^verbatim>\<open>self.owner.context\<close>.
\<close>

definition Neighbor_init :: "cell \<Rightarrow> ctx \<Rightarrow> ctx \<Rightarrow> Property" where
  "Neighbor_init own own_ctx c0 =
     \<lparr>prop_name = ''neighbor'', owner = own, p_ctx = c0, conns = [],
      conntype = cls_contextualize own_ctx Connection_cls\<rparr>"

definition ConnectionProperty_init :: "cell \<Rightarrow> ctx \<Rightarrow> Property" where
  "ConnectionProperty_init own c0 =
     \<lparr>prop_name = ''connection'', owner = own, p_ctx = c0, conns = [],
      conntype = Connection_cls\<rparr>"

subsection \<open>Neighbor\<close>

text \<open>
  A generator is modelled by the list it yields when exhausted, together with the
  patterns it loaded from the store, in order. An exception is \<open>Inl\<close>.
\<close>

definition Neighbor_get :: "store \<Rightarrow> Property \<Rightarrow> kwargs \<Rightarrow> error + (Connection list \<times> pyval list)" where
  "Neighbor_get db p kw =
     (if length (conns p) > 0 then Inr ([], concat (map post_cell_get (conns p)))
      else
        (case new_Connection (cls_contextualize (p_ctx p) (conntype p))
                [(''pre_cell'', PyCell (owner p))] kw of
           Inl e \<Rightarrow> Inl e
         | Inr c \<Rightarrow> Inr ([c], map post_cell_call (db c))))"

definition Neighbor_set :: "Property \<Rightarrow> pyval \<Rightarrow> kwargs \<Rightarrow> error + (Property \<times> Connection)" where
  "Neighbor_set p other kw =
     (case new_Connection (conntype p)
             [(''pre_cell'', PyCell (owner p)), (''post_cell'', other)] kw of
        Inl e \<Rightarrow> Inl e
      | Inr c \<Rightarrow> Inr (p\<lparr>conns := conns p @ [c]\<rparr>, c))"

text \<open>
  \<^verbatim>\<open>c.triples(**kwargs)\<close> of a relation object is a parameter \<open>tr\<close> (its code is not part of
  the sources).
\<close>

definition Neighbor_triples :: "(Connection \<Rightarrow> kwargs \<Rightarrow> 't list) \<Rightarrow> Property \<Rightarrow> kwargs \<Rightarrow> 't list" where
  "Neighbor_triples tr p kw = concat (map (\<lambda>c. tr c kw) (conns p))"

subsection \<open>ConnectionProperty\<close>

text \<open>
  \<^verbatim>\<open>c.append(cls(...))\<close>, with the exception of the call passed on.
\<close>

definition append_new ::
  "error + Connection list \<Rightarrow> conn_class \<Rightarrow> kwargs \<Rightarrow> kwargs \<Rightarrow> error + Connection list" where
  "append_new acc cls named kw =
     (case acc of
        Inl e \<Rightarrow> Inl e
      | Inr c \<Rightarrow> (case new_Connection cls named kw of Inl e \<Rightarrow> Inl e | Inr x \<Rightarrow> Inr (c @ [x])))"

text \<open>
  The list \<^verbatim>\<open>c\<close> that \<^verbatim>\<open>get\<close> (lines 235-242) and \<^verbatim>\<open>count\<close> (lines 252-260) build with the
  same chain of tests, for the relation class \<open>cls\<close> each of them uses. The chain has no
  final \<^verbatim>\<open>else\<close>.
\<close>

definition build_queries :: "conn_class \<Rightarrow> cell \<Rightarrow> string \<Rightarrow> kwargs \<Rightarrow> error + Connection list" where
  "build_queries cls own pre_post_or_either kw =
     (if pre_post_or_either = ''pre'' then
        append_new (Inr []) cls [(''pre_cell'', PyCell own)] kw
      else if pre_post_or_either = ''post'' then
        append_new (Inr []) cls [(''post_cell'', PyCell own)] kw
      else if pre_post_or_either = ''either'' then
        append_new (append_new (Inr []) cls [(''pre_cell'', PyCell own)] kw)
          cls [(''post_cell'', PyCell own)] kw
      else Inr [])"

definition ConnectionProperty_get ::
  "store \<Rightarrow> Property \<Rightarrow> string \<Rightarrow> kwargs \<Rightarrow> error + (Connection list \<times> Connection list)" where
  "ConnectionProperty_get db p pre_post_or_either kw =
     (case build_queries (conntype p) (owner p) pre_post_or_either kw of
        Inl e \<Rightarrow> Inl e
      | Inr c \<Rightarrow> Inr (c, concat (map db c)))"

text \<open>
  \<^verbatim>\<open>count\<close> takes \<^verbatim>\<open>syntype\<close> as a parameter of its own and never uses it.
\<close>

definition ConnectionProperty_count ::
  "store \<Rightarrow> Property \<Rightarrow> string \<Rightarrow> pyval \<Rightarrow> kwargs \<Rightarrow> error + (Connection list \<times> nat)" where
  "ConnectionProperty_count db p pre_post_or_either syntype kw =
     (case build_queries (cls_contextualize (p_ctx p) (conntype p)) (owner p)
             pre_post_or_either kw of
        Inl e \<Rightarrow> Inl e
      | Inr c \<Rightarrow> Inr (c, foldl (\<lambda>res x. res + length (db x)) 0 c))"

text \<open>
  The argument of \<^verbatim>\<open>set\<close> is any Python object: a relation object or another value.
  \<^verbatim>\<open>isinstance(conn, self._conntype)\<close> holds exactly for the relation objects. The method
  has no \<^verbatim>\<open>return\<close>: it returns \<^verbatim>\<open>None\<close>.
\<close>

datatype pyobj = ConnectionObj Connection | ValueObj pyval

definition ConnectionProperty_set :: "Property \<Rightarrow> pyobj \<Rightarrow> kwargs \<Rightarrow> error + (Property \<times> pyobj)" where
  "ConnectionProperty_set p conn kw =
     (case conn of
        ConnectionObj c \<Rightarrow> Inr (p\<lparr>conns := conns p @ [c]\<rparr>, ValueObj PyNone)
      | ValueObj v \<Rightarrow> Inl AssertionError)"

definition ConnectionProperty_triples ::
  "(Connection \<Rightarrow> kwargs \<Rightarrow> 't list) \<Rightarrow> Property \<Rightarrow> kwargs \<Rightarrow> 't list" where
  "ConnectionProperty_triples tr p kw = concat (map (\<lambda>c. tr c kw) (conns p))"

text \<open>
  A sequence of \<^verbatim>\<open>set\<close> calls on one property, stopping at the first exception.
\<close>

fun ConnectionProperty_set_all :: "Property \<Rightarrow> (pyobj \<times> kwargs) list \<Rightarrow> error + Property" where
  "ConnectionProperty_set_all p [] = Inr p"
| "ConnectionProperty_set_all p (x # xs) =
     (case ConnectionProperty_set p (fst x) (snd x) of
        Inl e \<Rightarrow> Inl e
      | Inr r \<Rightarrow> ConnectionProperty_set_all (fst r) xs)"

text \<open>
  Modelled from the spec: calling a property with no argument (\<^verbatim>\<open>self.connection()\<close>,
  \<^verbatim>\<open>Property.__call__\<close> of the base class, not part of the sources) reads it, as the
  docstring of \<^verbatim>\<open>Neuron\<close> says of its properties ("Get ... if called with no arguments"):
  it is \<^verbatim>\<open>get()\<close> with no argument, so \<^verbatim>\<open>pre_post_or_either\<close> takes its default \<^verbatim>\<open>'pre'\<close>.
  The call site passes no direction, whatever the base class does with the result.
\<close>

definition ConnectionProperty_call :: "store \<Rightarrow> Property \<Rightarrow> error + (Connection list \<times> Connection list)" where
  "ConnectionProperty_call db p = ConnectionProperty_get db p ''pre'' []"

section \<open>Neurons\<close>

text \<open>
  Objects live in an object store: an address is an index into the list, allocation
  appends. A neuron holds its two properties by reference; \<open>None\<close> is an attribute that
  does not exist (\<^verbatim>\<open>hasattr\<close> is false). The datatype attributes of a neuron (type,
  receptor, ...) play no part in the operations below and are left out.
\<close>

record Neuron =
  name :: cell
  n_ctx :: ctx
  neighbor :: "nat option"
  connection :: "nat option"

text \<open>
  \<^verbatim>\<open>NeuronProxy(neighbor, connection, wrapped)\<close>: the two properties it answers itself, and
  the object every other attribute is forwarded to.
\<close>

record NeuronProxy =
  self_neighbor :: nat
  self_connection :: nat
  wrapped :: nat

datatype obj =
    NeuronObj Neuron
  | NeighborObj Property
  | ConnectionPropertyObj Property
  | NeuronProxyObj NeuronProxy

type_synonym heap = "obj list"

definition alloc :: "heap \<Rightarrow> obj \<Rightarrow> heap \<times> nat" where
  "alloc h x = (h @ [x], length h)"

definition deref :: "heap \<Rightarrow> nat \<Rightarrow> obj option" where
  "deref h a = (if a < length h then Some (h ! a) else None)"

text \<open>
  Modelled from the spec: \<^verbatim>\<open>contextualize\<close> of the base classes (the property base class
  and \<^verbatim>\<open>Cell\<close>, not part of the sources). Each returns a new object, the original with its
  scope replaced, and leaves the original as it was.
\<close>

definition Property_contextualize :: "heap \<Rightarrow> nat \<Rightarrow> ctx \<Rightarrow> error + (heap \<times> nat)" where
  "Property_contextualize h a c =
     (case deref h a of
        Some (NeighborObj p) \<Rightarrow> Inr (alloc h (NeighborObj (p\<lparr>p_ctx := c\<rparr>)))
      | Some (ConnectionPropertyObj p) \<Rightarrow> Inr (alloc h (ConnectionPropertyObj (p\<lparr>p_ctx := c\<rparr>)))
      | _ \<Rightarrow> Inl AttributeError)"

definition Cell_contextualize :: "heap \<Rightarrow> Neuron \<Rightarrow> ctx \<Rightarrow> heap \<times> nat" where
  "Cell_contextualize h n c = alloc h (NeuronObj (n\<lparr>n_ctx := c\<rparr>))"

text \<open>
  \<^verbatim>\<open>Neuron.contextualize\<close>. The arguments of \<^verbatim>\<open>NeuronProxy(...)\<close> are evaluated left to
  right; \<^verbatim>\<open>self.connection\<close> on a neuron without that attribute raises \<^verbatim>\<open>AttributeError\<close>.
  Calling the method on an object that is no neuron is a \<^verbatim>\<open>TypeError\<close>.
\<close>

definition Neuron_contextualize :: "heap \<Rightarrow> nat \<Rightarrow> ctx \<Rightarrow> error + (heap \<times> nat)" where
  "Neuron_contextualize h self c =
     (case deref h self of
        Some (NeuronObj n) \<Rightarrow>
          (case Cell_contextualize h n c of
             (h1, res) \<Rightarrow>
               (case neighbor n of
                  None \<Rightarrow> Inr (h1, res)
                | Some na \<Rightarrow>
                    (case Property_contextualize h1 na c of
                       Inl e \<Rightarrow> Inl e
                     | Inr (h2, nb) \<Rightarrow>
                         (case connection n of
                            None \<Rightarrow> Inl AttributeError
                          | Some ca \<Rightarrow>
                              (case Property_contextualize h2 ca c of
                                 Inl e \<Rightarrow> Inl e
                               | Inr (h3, cp) \<Rightarrow>
                                   Inr (alloc h3 (NeuronProxyObj
                                     \<lparr>self_neighbor = nb, self_connection = cp,
                                      wrapped = res\<rparr>)))))))
      | _ \<Rightarrow> Inl TypeError)"

text \<open>
  The attribute \<^verbatim>\<open>self.connection\<close> of a neuron.
\<close>

definition Neuron_connection :: "heap \<Rightarrow> nat \<Rightarrow> error + Property" where
  "Neuron_connection h self =
     (case deref h self of
        Some (NeuronObj n) \<Rightarrow>
          (case connection n of
             None \<Rightarrow> Inl AttributeError
           | Some a \<Rightarrow>
               (case deref h a of
                  Some (ConnectionPropertyObj p) \<Rightarrow> Inr p
                | _ \<Rightarrow> Inl AttributeError))
      | _ \<Rightarrow> Inl TypeError)"

text \<open>
  The counting loop of both degree methods, for the tag \<open>tag\<close> each compares with.
\<close>

definition count_syntype :: "string \<Rightarrow> Connection list \<Rightarrow> nat" where
  "count_syntype tag rs =
     foldl (\<lambda>count c. if syntype_one c = PyStr tag then count + 1 else count) 0 rs"

definition GJ_degree :: "store \<Rightarrow> heap \<Rightarrow> nat \<Rightarrow> error + (Connection list \<times> nat)" where
  "GJ_degree db h self =
     (case Neuron_connection h self of
        Inl e \<Rightarrow> Inl e
      | Inr cp \<Rightarrow>
          (case ConnectionProperty_call db cp of
             Inl e \<Rightarrow> Inl e
           | Inr (qs, rs) \<Rightarrow> Inr (qs, count_syntype ''gapJunction'' rs)))"

definition Syn_degree :: "store \<Rightarrow> heap \<Rightarrow> nat \<Rightarrow> error + (Connection list \<times> nat)" where
  "Syn_degree db h self =
     (case Neuron_connection h self of
        Inl e \<Rightarrow> Inl e
      | Inr cp \<Rightarrow>
          (case ConnectionProperty_get db cp ''either'' [] of
             Inl e \<Rightarrow> Inl e
           | Inr (qs, rs) \<Rightarrow> Inr (qs, count_syntype ''send'' rs)))"

section \<open>A concrete store and a concrete neuron\<close>

text \<open>
  The data of the examples below: the neuron \<^verbatim>\<open>AVAL\<close> with its two properties at addresses
  1 and 2, and a store of five persisted relations, one of them in the scope \<^verbatim>\<open>ctx1\<close>, one
  a self-loop, one a gap junction that comes into \<^verbatim>\<open>AVAL\<close>.
\<close>

definition relation :: "ctx \<Rightarrow> cell \<Rightarrow> cell \<Rightarrow> string \<Rightarrow> Connection" where
  "relation c pre post tag =
     \<lparr>conn_ctx = c,
      conn_args = [(''pre_cell'', PyCell pre), (''post_cell'', PyCell post), (''syntype'', PyStr tag)]\<rparr>"

definition example_facts :: "Connection list" where
  "example_facts =
     [relation None ''AVAL'' ''PVCL'' ''send'',
      relation None ''AVAL'' ''AVBL'' ''gapJunction'',
      relation None ''AVBL'' ''AVAL'' ''gapJunction'',
      relation None ''AVAL'' ''AVAL'' ''send'',
      relation (Some ''ctx1'') ''AVAL'' ''DA1'' ''send'']"

definition example_db :: store where
  "example_db = load_from example_facts"

definition AVAL_neighbor :: Property where
  "AVAL_neighbor = Neighbor_init ''AVAL'' None None"

definition AVAL_connection :: Property where
  "AVAL_connection = ConnectionProperty_init ''AVAL'' None"

definition example_heap :: heap where
  "example_heap =
     [NeuronObj \<lparr>name = ''AVAL'', n_ctx = None, neighbor = Some 1, connection = Some 2\<rparr>,
      NeighborObj AVAL_neighbor,
      ConnectionPropertyObj AVAL_connection]"

section \<open>Auxiliary facts\<close>

lemma class_ctx_cls_contextualize: "class_ctx (cls_contextualize c cls) = c"
  by (cases cls) simp

lemma new_Connection_single:
  "new_Connection cls [(k, v)] kw =
     (if k \<in> fst ` set kw then Inl TypeError
      else Inr \<lparr>conn_ctx = class_ctx cls, conn_args = (k, v) # kw\<rparr>)"
  by (simp add: new_Connection_def)

lemma build_queries_pre:
  "build_queries cls own ''pre'' kw =
     (if ''pre_cell'' \<in> fst ` set kw then Inl TypeError
      else Inr [\<lparr>conn_ctx = class_ctx cls, conn_args = (''pre_cell'', PyCell own) # kw\<rparr>])"
  by (simp add: build_queries_def append_new_def new_Connection_single)

lemma build_queries_post:
  "build_queries cls own ''post'' kw =
     (if ''post_cell'' \<in> fst ` set kw then Inl TypeError
      else Inr [\<lparr>conn_ctx = class_ctx cls, conn_args = (''post_cell'', PyCell own) # kw\<rparr>])"
  by (simp add: build_queries_def append_new_def new_Connection_single)

lemma build_queries_either:
  "build_queries cls own ''either'' kw =
     (if ''pre_cell'' \<in> fst ` set kw \<or> ''post_cell'' \<in> fst ` set kw then Inl TypeError
      else Inr [\<lparr>conn_ctx = class_ctx cls, conn_args = (''pre_cell'', PyCell own) # kw\<rparr>,
                \<lparr>conn_ctx = class_ctx cls, conn_args = (''post_cell'', PyCell own) # kw\<rparr>])"
  by (simp add: build_queries_def append_new_def new_Connection_single)

lemma build_queries_other:
  "d \<noteq> ''pre'' \<Longrightarrow> d \<noteq> ''post'' \<Longrightarrow> d \<noteq> ''either'' \<Longrightarrow> build_queries cls own d kw = Inr []"
  by (simp add: build_queries_def)

lemma build_queries_scope:
  "build_queries cls own d kw = Inr qs \<Longrightarrow> list_all (\<lambda>q. conn_ctx q = class_ctx cls) qs"
  by (auto simp: build_queries_def append_new_def new_Connection_single split: if_splits)

lemma count_syntype_acc:
  "foldl (\<lambda>count c. if syntype_one c = PyStr tag then count + 1 else count) k rs =
     k + length (filter (\<lambda>c. syntype_one c = PyStr tag) rs)"
  by (induction rs arbitrary: k) simp_all

lemma count_syntype_filter:
  "count_syntype tag rs = length (filter (\<lambda>c. syntype_one c = PyStr tag) rs)"
  by (simp add: count_syntype_def count_syntype_acc)

lemma count_loop_acc:
  "foldl (\<lambda>res x. res + length (db x)) k c = k + length (concat (map db c))"
  by (induction c arbitrary: k) simp_all

lemma ConnectionProperty_count_length:
  "ConnectionProperty_count db p d syn kw =
     (case build_queries (cls_contextualize (p_ctx p) (conntype p)) (owner p) d kw of
        Inl e \<Rightarrow> Inl e
      | Inr c \<Rightarrow> Inr (c, length (concat (map db c))))"
  by (simp add: ConnectionProperty_count_def count_loop_acc split: sum.splits)

lemma ConnectionProperty_get_ignores_p_ctx:
  "ConnectionProperty_get db (p\<lparr>p_ctx := c\<rparr>) d kw = ConnectionProperty_get db p d kw"
  by (simp add: ConnectionProperty_get_def)

lemma ConnectionProperty_get_patterns_scope:
  "ConnectionProperty_get db p d kw = Inr (qs, rs) \<Longrightarrow>
     list_all (\<lambda>q. conn_ctx q = class_ctx (conntype p)) qs"
  by (auto simp: ConnectionProperty_get_def split: sum.splits dest: build_queries_scope)

lemma ConnectionProperty_count_patterns_scope:
  "ConnectionProperty_count db p d syn kw = Inr (qs, n) \<Longrightarrow>
     list_all (\<lambda>q. conn_ctx q = p_ctx p) qs"
  by (auto simp: ConnectionProperty_count_def class_ctx_cls_contextualize
      split: sum.splits dest: build_queries_scope)

lemma ConnectionProperty_set_appends:
  "ConnectionProperty_set p (ConnectionObj c) kw = Inr (p\<lparr>conns := conns p @ [c]\<rparr>, ValueObj PyNone)"
  by (simp add: ConnectionProperty_set_def)

lemma ConnectionProperty_set_rejects:
  "ConnectionProperty_set p (ValueObj v) kw = Inl AssertionError"
  by (simp add: ConnectionProperty_set_def)

lemma ConnectionProperty_set_frame:
  "ConnectionProperty_set p x kw = Inr (p', r) \<Longrightarrow>
     owner p' = owner p \<and> p_ctx p' = p_ctx p \<and> conntype p' = conntype p"
  by (auto simp: ConnectionProperty_set_def split: pyobj.splits)

lemma ConnectionProperty_set_all_frame:
  "ConnectionProperty_set_all p xs = Inr p' \<Longrightarrow>
     owner p' = owner p \<and> p_ctx p' = p_ctx p \<and> conntype p' = conntype p"
proof (induction xs arbitrary: p)
  case Nil
  then show ?case by simp
next
  case (Cons x xs)
  then obtain q r where s: "ConnectionProperty_set p (fst x) (snd x) = Inr (q, r)"
    and t: "ConnectionProperty_set_all q xs = Inr p'"
    by (auto split: sum.splits)
  from Cons.IH [OF t] ConnectionProperty_set_frame [OF s] show ?case by simp
qed

lemma ConnectionProperty_set_all_conns:
  "ConnectionProperty_set_all p xs = Inr p' \<Longrightarrow>
     conns p' = conns p @ concat (map (\<lambda>x. case fst x of ConnectionObj c \<Rightarrow> [c] | ValueObj v \<Rightarrow> []) xs)"
proof (induction xs arbitrary: p)
  case Nil
  then show ?case by simp
next
  case (Cons x xs)
  then show ?case
    by (cases "fst x") (auto simp: ConnectionProperty_set_def)
qed

lemma GJ_degree_counts_pre_only:
  "Neuron_connection h self = Inr cp \<Longrightarrow>
     GJ_degree db h self =
       (case ConnectionProperty_get db cp ''pre'' [] of
          Inl e \<Rightarrow> Inl e
        | Inr (qs, rs) \<Rightarrow>
            Inr (qs, length (filter (\<lambda>c. syntype_one c = PyStr ''gapJunction'') rs)))"
  by (simp add: GJ_degree_def ConnectionProperty_call_def count_syntype_filter
      split: sum.splits prod.splits)

lemma Syn_degree_counts_send_of_either:
  "Neuron_connection h self = Inr cp \<Longrightarrow>
     Syn_degree db h self =
       (case ConnectionProperty_get db cp ''either'' [] of
          Inl e \<Rightarrow> Inl e
        | Inr (qs, rs) \<Rightarrow>
            Inr (qs, length (filter (\<lambda>c. syntype_one c = PyStr ''send'') rs)))"
  by (simp add: Syn_degree_def count_syntype_filter split: sum.splits prod.splits)

lemma deref_alloc_old: "a < length h \<Longrightarrow> deref (fst (alloc h x)) a = deref h a"
  by (simp add: deref_def alloc_def nth_append)

subsection \<open>The concrete store and neuron, evaluated\<close>

lemma example_db_pre:
  "example_db \<lparr>conn_ctx = None, conn_args = [(''pre_cell'', PyCell ''AVAL'')]\<rparr> =
     [relation None ''AVAL'' ''PVCL'' ''send'',
      relation None ''AVAL'' ''AVBL'' ''gapJunction'',
      relation None ''AVAL'' ''AVAL'' ''send'']"
  by (simp add: example_db_def load_from_def example_facts_def matches_def relation_def)

lemma example_db_post:
  "example_db \<lparr>conn_ctx = None, conn_args = [(''post_cell'', PyCell ''AVAL'')]\<rparr> =
     [relation None ''AVBL'' ''AVAL'' ''gapJunction'',
      relation None ''AVAL'' ''AVAL'' ''send'']"
  by (simp add: example_db_def load_from_def example_facts_def matches_def relation_def)

lemma example_db_pre_ctx1:
  "example_db \<lparr>conn_ctx = Some ''ctx1'', conn_args = [(''pre_cell'', PyCell ''AVAL'')]\<rparr> =
     [relation (Some ''ctx1'') ''AVAL'' ''DA1'' ''send'']"
  by (simp add: example_db_def load_from_def example_facts_def matches_def relation_def)

lemma AVAL_connection_fields:
  "owner AVAL_connection = ''AVAL''" "p_ctx AVAL_connection = None"
  "conns AVAL_connection = []" "conntype AVAL_connection = ConnectionClass None"
  by (simp_all add: AVAL_connection_def ConnectionProperty_init_def Connection_cls_def)

lemma example_heap_cells:
  "deref example_heap 0 =
     Some (NeuronObj \<lparr>name = ''AVAL'', n_ctx = None, neighbor = Some 1, connection = Some 2\<rparr>)"
  "deref example_heap (Suc 0) = Some (NeighborObj AVAL_neighbor)"
  "deref example_heap 2 = Some (ConnectionPropertyObj AVAL_connection)"
  "length example_heap = 3"
  by (simp_all add: example_heap_def deref_def)

lemma example_Neuron_connection: "Neuron_connection example_heap 0 = Inr AVAL_connection"
  by (simp add: Neuron_connection_def example_heap_cells)

section \<open>Checked properties\<close>

text \<open>
  C1. After \<^verbatim>\<open>set(X)\<close> on a \<^verbatim>\<open>Neighbor\<close>, \<^verbatim>\<open>get()\<close> yields the post endpoints of the cached
  relations and nothing else: the endpoints cached before, then \<open>X\<close>; it is exactly \<open>[X]\<close>
  when the cache was empty before. No pattern is loaded from the store (the first
  component is empty), so the result is the same for every store. With an empty cache,
  \<^verbatim>\<open>get(**kw)\<close> loads one pattern, scoped to the property's scope and binding \<^verbatim>\<open>pre_cell\<close> to
  the owner, and yields the post endpoint of every relation the store returns, in order
  (a keyword \<^verbatim>\<open>pre_cell\<close> in \<^verbatim>\<open>kw\<close> is a \<^verbatim>\<open>TypeError\<close>).
\<close>

theorem Neighbor_get_cache_first:
  "(Neighbor_set p X kw = Inr (p', c) \<longrightarrow>
      Neighbor_get db p' kw' = Inr ([], concat (map post_cell_get (conns p)) @ [X]) \<and>
      (conns p = [] \<longrightarrow> Neighbor_get db p' kw' = Inr ([], [X]))) \<and>
   (conns q = [] \<longrightarrow>
      Neighbor_get db q kw2 =
        (if ''pre_cell'' \<in> fst ` set kw2 then Inl TypeError
         else Inr ([\<lparr>conn_ctx = p_ctx q, conn_args = (''pre_cell'', PyCell (owner q)) # kw2\<rparr>],
                   map post_cell_call
                     (db \<lparr>conn_ctx = p_ctx q, conn_args = (''pre_cell'', PyCell (owner q)) # kw2\<rparr>))))"
proof (intro conjI impI)
  assume s: "Neighbor_set p X kw = Inr (p', c)"
  then have c: "c = \<lparr>conn_ctx = class_ctx (conntype p),
                     conn_args = [(''pre_cell'', PyCell (owner p)), (''post_cell'', X)] @ kw\<rparr>"
    and p': "conns p' = conns p @ [c]"
    by (auto simp: Neighbor_set_def new_Connection_def split: if_splits)
  have "post_cell_get c = [X]"
    by (simp add: c post_cell_get_def)
  then show g: "Neighbor_get db p' kw' = Inr ([], concat (map post_cell_get (conns p)) @ [X])"
    by (simp add: Neighbor_get_def p')
  assume "conns p = []"
  with g show "Neighbor_get db p' kw' = Inr ([], [X])" by simp
next
  assume "conns q = []"
  then show "Neighbor_get db q kw2 =
        (if ''pre_cell'' \<in> fst ` set kw2 then Inl TypeError
         else Inr ([\<lparr>conn_ctx = p_ctx q, conn_args = (''pre_cell'', PyCell (owner q)) # kw2\<rparr>],
                   map post_cell_call
                     (db \<lparr>conn_ctx = p_ctx q, conn_args = (''pre_cell'', PyCell (owner q)) # kw2\<rparr>)))"
    by (simp add: Neighbor_get_def new_Connection_single class_ctx_cls_contextualize)
qed

text \<open>
  The theorem at \<^verbatim>\<open>AVAL\<close>: the store holds three relations out of \<^verbatim>\<open>AVAL\<close>; before the
  \<^verbatim>\<open>set\<close> they are what \<^verbatim>\<open>get\<close> yields, after \<^verbatim>\<open>set(AVBL)\<close> it yields \<^verbatim>\<open>AVBL\<close> alone.
\<close>

theorem Neighbor_get_cache_first_witness:
  "Neighbor_set AVAL_neighbor (PyCell ''AVBL'') [] =
     Inr (AVAL_neighbor\<lparr>conns := [\<lparr>conn_ctx = None,
             conn_args = [(''pre_cell'', PyCell ''AVAL''), (''post_cell'', PyCell ''AVBL'')]\<rparr>]\<rparr>,
          \<lparr>conn_ctx = None,
             conn_args = [(''pre_cell'', PyCell ''AVAL''), (''post_cell'', PyCell ''AVBL'')]\<rparr>) \<and>
   conns AVAL_neighbor = [] \<and>
   Neighbor_get example_db
     (AVAL_neighbor\<lparr>conns := [\<lparr>conn_ctx = None,
             conn_args = [(''pre_cell'', PyCell ''AVAL''), (''post_cell'', PyCell ''AVBL'')]\<rparr>]\<rparr>) []
     = Inr ([], [PyCell ''AVBL'']) \<and>
   Neighbor_get example_db AVAL_neighbor [] =
     Inr ([\<lparr>conn_ctx = None, conn_args = [(''pre_cell'', PyCell ''AVAL'')]\<rparr>],
          [PyCell ''PVCL'', PyCell ''AVBL'', PyCell ''AVAL''])"
proof -
  let ?c = "\<lparr>conn_ctx = None,
             conn_args = [(''pre_cell'', PyCell ''AVAL''), (''post_cell'', PyCell ''AVBL'')]\<rparr>"
  have s: "Neighbor_set AVAL_neighbor (PyCell ''AVBL'') [] =
             Inr (AVAL_neighbor\<lparr>conns := [?c]\<rparr>, ?c)"
    by (simp add: Neighbor_set_def AVAL_neighbor_def Neighbor_init_def new_Connection_def
        Connection_cls_def)
  have e: "conns AVAL_neighbor = []"
    by (simp add: AVAL_neighbor_def Neighbor_init_def)
  have d: "example_db \<lparr>conn_ctx = None, conn_args = [(''pre_cell'', PyCell ''AVAL'')]\<rparr> =
             [relation None ''AVAL'' ''PVCL'' ''send'',
              relation None ''AVAL'' ''AVBL'' ''gapJunction'',
              relation None ''AVAL'' ''AVAL'' ''send'']"
    by (simp add: example_db_def load_from_def example_facts_def matches_def relation_def)
  have o: "p_ctx AVAL_neighbor = None" "owner AVAL_neighbor = ''AVAL''"
    by (simp_all add: AVAL_neighbor_def Neighbor_init_def)
  from Neighbor_get_cache_first
    [of AVAL_neighbor "PyCell ''AVBL''" "[]" "AVAL_neighbor\<lparr>conns := [?c]\<rparr>" ?c
        example_db "[]" AVAL_neighbor "[]"] s e
  show ?thesis
    by (simp add: d o post_cell_call_def relation_def)
qed

text \<open>
  C2, at a failing input. Two gap junctions touch \<^verbatim>\<open>AVAL\<close> in the store, one going out and
  one coming in. \<^verbatim>\<open>GJ_degree\<close> calls \<^verbatim>\<open>self.connection()\<close> with no direction, loads the \<^verbatim>\<open>pre\<close>
  pattern alone and returns 1: the incoming gap junction is not counted. \<^verbatim>\<open>Syn_degree\<close> does
  iterate \<^verbatim>\<open>get('either')\<close>: it loads both patterns and counts the relations tagged
  \<^verbatim>\<open>'send'\<close> (3 here, the self-loop twice).
\<close>

theorem GJ_degree_misses_incoming:
  "GJ_degree example_db example_heap 0 =
     Inr ([\<lparr>conn_ctx = None, conn_args = [(''pre_cell'', PyCell ''AVAL'')]\<rparr>], 1) \<and>
   filter (\<lambda>c. syntype_one c = PyStr ''gapJunction'')
     (example_db \<lparr>conn_ctx = None, conn_args = [(''pre_cell'', PyCell ''AVAL'')]\<rparr> @
      example_db \<lparr>conn_ctx = None, conn_args = [(''post_cell'', PyCell ''AVAL'')]\<rparr>) =
     [relation None ''AVAL'' ''AVBL'' ''gapJunction'',
      relation None ''AVBL'' ''AVAL'' ''gapJunction''] \<and>
   Syn_degree example_db example_heap 0 =
     Inr ([\<lparr>conn_ctx = None, conn_args = [(''pre_cell'', PyCell ''AVAL'')]\<rparr>,
           \<lparr>conn_ctx = None, conn_args = [(''post_cell'', PyCell ''AVAL'')]\<rparr>], 3)"
  by (simp add: GJ_degree_counts_pre_only Syn_degree_counts_send_of_either
      example_Neuron_connection ConnectionProperty_get_def build_queries_pre
      build_queries_either AVAL_connection_fields example_db_pre example_db_post
      syntype_one_def relation_def)

text \<open>
  C3, as the code has it. For a direction that is none of \<^verbatim>\<open>'pre'\<close>, \<^verbatim>\<open>'post'\<close>, \<^verbatim>\<open>'either'\<close>,
  the list of patterns stays empty: \<^verbatim>\<open>get\<close> yields nothing and \<^verbatim>\<open>count\<close> returns 0, no pattern
  is loaded and no exception is raised. It is not treated as \<^verbatim>\<open>'pre'\<close>.
\<close>

theorem ConnectionProperty_unknown_direction_empty:
  "d \<noteq> ''pre'' \<Longrightarrow> d \<noteq> ''post'' \<Longrightarrow> d \<noteq> ''either'' \<Longrightarrow>
     ConnectionProperty_get db p d kw = Inr ([], []) \<and>
     ConnectionProperty_count db p d syn kw = Inr ([], 0)"
  by (simp add: ConnectionProperty_get_def ConnectionProperty_count_def build_queries_other)

text \<open>
  The theorem at the direction \<^verbatim>\<open>'unknown-direction'\<close>.
\<close>

theorem ConnectionProperty_unknown_direction_empty_witness:
  "ConnectionProperty_get example_db AVAL_connection ''unknown-direction'' [] = Inr ([], []) \<and>
   ConnectionProperty_count example_db AVAL_connection ''unknown-direction'' PyNone [] = Inr ([], 0)"
  using ConnectionProperty_unknown_direction_empty
    [of "''unknown-direction''" example_db AVAL_connection "[]" PyNone]
  by simp

text \<open>
  C3 as stated fails: with three persisted relations out of \<^verbatim>\<open>AVAL\<close>,
  \<^verbatim>\<open>get('unknown-direction')\<close> differs from \<^verbatim>\<open>get('pre')\<close>, and so does \<^verbatim>\<open>count\<close>.
\<close>

theorem unknown_direction_is_not_pre:
  "ConnectionProperty_get example_db AVAL_connection ''unknown-direction'' [] \<noteq>
     ConnectionProperty_get example_db AVAL_connection ''pre'' [] \<and>
   ConnectionProperty_count example_db AVAL_connection ''unknown-direction'' PyNone [] \<noteq>
     ConnectionProperty_count example_db AVAL_connection ''pre'' PyNone []"
  by (simp add: ConnectionProperty_get_def ConnectionProperty_count_def build_queries_def
      append_new_def new_Connection_def)

text \<open>
  C4. For the same arguments, \<^verbatim>\<open>count('either')\<close> is \<^verbatim>\<open>count('pre') + count('post')\<close>.
  \<^verbatim>\<open>count('pre')\<close> loads the pattern binding \<^verbatim>\<open>pre_cell\<close> to the owner, scoped to the
  property's scope, and returns the number of relations the store answers;
  \<^verbatim>\<open>count('post')\<close> does the same with \<^verbatim>\<open>post_cell\<close>; \<^verbatim>\<open>count('either')\<close> loads the two
  patterns in that order and returns the sum of the two numbers. Nothing is
  deduplicated: a relation the store returns for both patterns (a self-loop) adds 2.
  Where one of the two raises (a keyword of \<^verbatim>\<open>kwargs\<close> repeats \<^verbatim>\<open>pre_cell\<close> or \<^verbatim>\<open>post_cell\<close>),
  \<^verbatim>\<open>count('either')\<close> raises the same exception.
\<close>

theorem count_either_is_pre_plus_post:
  "ConnectionProperty_count db p ''either'' syn kw =
     (case ConnectionProperty_count db p ''pre'' syn kw of
        Inl e \<Rightarrow> Inl e
      | Inr (qa, m) \<Rightarrow>
          (case ConnectionProperty_count db p ''post'' syn kw of
             Inl e \<Rightarrow> Inl e
           | Inr (qb, n) \<Rightarrow> Inr (qa @ qb, m + n))) \<and>
   ConnectionProperty_count db p ''pre'' syn kw =
     (if ''pre_cell'' \<in> fst ` set kw then Inl TypeError
      else Inr ([\<lparr>conn_ctx = p_ctx p, conn_args = (''pre_cell'', PyCell (owner p)) # kw\<rparr>],
                length (db \<lparr>conn_ctx = p_ctx p,
                             conn_args = (''pre_cell'', PyCell (owner p)) # kw\<rparr>))) \<and>
   ConnectionProperty_count db p ''post'' syn kw =
     (if ''post_cell'' \<in> fst ` set kw then Inl TypeError
      else Inr ([\<lparr>conn_ctx = p_ctx p, conn_args = (''post_cell'', PyCell (owner p)) # kw\<rparr>],
                length (db \<lparr>conn_ctx = p_ctx p,
                             conn_args = (''post_cell'', PyCell (owner p)) # kw\<rparr>))) \<and>
   ConnectionProperty_count db p ''either'' syn kw =
     (if ''pre_cell'' \<in> fst ` set kw \<or> ''post_cell'' \<in> fst ` set kw then Inl TypeError
      else Inr ([\<lparr>conn_ctx = p_ctx p, conn_args = (''pre_cell'', PyCell (owner p)) # kw\<rparr>,
                 \<lparr>conn_ctx = p_ctx p, conn_args = (''post_cell'', PyCell (owner p)) # kw\<rparr>],
                length (db \<lparr>conn_ctx = p_ctx p,
                             conn_args = (''pre_cell'', PyCell (owner p)) # kw\<rparr>) +
                length (db \<lparr>conn_ctx = p_ctx p,
                             conn_args = (''post_cell'', PyCell (owner p)) # kw\<rparr>)))"
  by (simp add: ConnectionProperty_count_length build_queries_pre build_queries_post
      build_queries_either class_ctx_cls_contextualize)

text \<open>
  The theorem at \<^verbatim>\<open>AVAL\<close>. On a store that holds one self-loop and nothing else,
  \<^verbatim>\<open>count('pre')\<close> and \<^verbatim>\<open>count('post')\<close> are 1 each and \<^verbatim>\<open>count('either')\<close> is 2: the
  self-loop is counted twice. On the store of five relations, three go out of \<^verbatim>\<open>AVAL\<close>
  and two come in (the self-loop among both), and \<^verbatim>\<open>count('either')\<close> is 5.
\<close>

theorem count_either_is_pre_plus_post_witness:
  "ConnectionProperty_count (load_from [relation None ''AVAL'' ''AVAL'' ''send''])
     AVAL_connection ''pre'' PyNone [] =
     Inr ([\<lparr>conn_ctx = None, conn_args = [(''pre_cell'', PyCell ''AVAL'')]\<rparr>], 1) \<and>
   ConnectionProperty_count (load_from [relation None ''AVAL'' ''AVAL'' ''send''])
     AVAL_connection ''post'' PyNone [] =
     Inr ([\<lparr>conn_ctx = None, conn_args = [(''post_cell'', PyCell ''AVAL'')]\<rparr>], 1) \<and>
   ConnectionProperty_count (load_from [relation None ''AVAL'' ''AVAL'' ''send''])
     AVAL_connection ''either'' PyNone [] =
     Inr ([\<lparr>conn_ctx = None, conn_args = [(''pre_cell'', PyCell ''AVAL'')]\<rparr>,
           \<lparr>conn_ctx = None, conn_args = [(''post_cell'', PyCell ''AVAL'')]\<rparr>], 2) \<and>
   ConnectionProperty_count example_db AVAL_connection ''pre'' PyNone [] =
     Inr ([\<lparr>conn_ctx = None, conn_args = [(''pre_cell'', PyCell ''AVAL'')]\<rparr>], 3) \<and>
   ConnectionProperty_count example_db AVAL_connection ''post'' PyNone [] =
     Inr ([\<lparr>conn_ctx = None, conn_args = [(''post_cell'', PyCell ''AVAL'')]\<rparr>], 2) \<and>
   ConnectionProperty_count example_db AVAL_connection ''either'' PyNone [] =
     Inr ([\<lparr>conn_ctx = None, conn_args = [(''pre_cell'', PyCell ''AVAL'')]\<rparr>,
           \<lparr>conn_ctx = None, conn_args = [(''post_cell'', PyCell ''AVAL'')]\<rparr>], 5) \<and>
   ConnectionProperty_count example_db AVAL_connection ''either'' PyNone
     [(''pre_cell'', PyCell ''AVBL'')] = Inl TypeError"
proof -
  have loop:
    "load_from [relation None ''AVAL'' ''AVAL'' ''send'']
       \<lparr>conn_ctx = None, conn_args = [(''pre_cell'', PyCell ''AVAL'')]\<rparr> =
     [relation None ''AVAL'' ''AVAL'' ''send'']"
    "load_from [relation None ''AVAL'' ''AVAL'' ''send'']
       \<lparr>conn_ctx = None, conn_args = [(''post_cell'', PyCell ''AVAL'')]\<rparr> =
     [relation None ''AVAL'' ''AVAL'' ''send'']"
    by (simp_all add: load_from_def matches_def relation_def)
  from count_either_is_pre_plus_post
         [of "load_from [relation None ''AVAL'' ''AVAL'' ''send'']" AVAL_connection PyNone "[]"]
       count_either_is_pre_plus_post [of example_db AVAL_connection PyNone "[]"]
       count_either_is_pre_plus_post
         [of example_db AVAL_connection PyNone "[(''pre_cell'', PyCell ''AVBL'')]"]
  show ?thesis
    by (simp add: loop AVAL_connection_fields example_db_pre example_db_post)
qed

text \<open>
  C5, at a failing input. The property is attached to the scope \<^verbatim>\<open>ctx1\<close>. \<^verbatim>\<open>count('pre')\<close>
  contextualizes the relation class first and loads a pattern scoped to \<^verbatim>\<open>ctx1\<close> (one
  relation). \<^verbatim>\<open>get('pre')\<close> uses \<^verbatim>\<open>self._conntype\<close> as it is: its pattern has no scope, and it
  yields the three relations outside \<^verbatim>\<open>ctx1\<close>.
\<close>

theorem ConnectionProperty_get_not_scoped:
  "ConnectionProperty_get example_db (AVAL_connection\<lparr>p_ctx := Some ''ctx1''\<rparr>) ''pre'' [] =
     Inr ([\<lparr>conn_ctx = None, conn_args = [(''pre_cell'', PyCell ''AVAL'')]\<rparr>],
          [relation None ''AVAL'' ''PVCL'' ''send'',
           relation None ''AVAL'' ''AVBL'' ''gapJunction'',
           relation None ''AVAL'' ''AVAL'' ''send'']) \<and>
   ConnectionProperty_count example_db (AVAL_connection\<lparr>p_ctx := Some ''ctx1''\<rparr>) ''pre'' PyNone [] =
     Inr ([\<lparr>conn_ctx = Some ''ctx1'', conn_args = [(''pre_cell'', PyCell ''AVAL'')]\<rparr>], 1)"
  by (simp add: ConnectionProperty_get_def ConnectionProperty_count_length build_queries_pre
      AVAL_connection_fields example_db_pre example_db_pre_ctx1)

text \<open>
  C6. On a neuron that has its \<^verbatim>\<open>neighbor\<close> and \<^verbatim>\<open>connection\<close> properties,
  \<^verbatim>\<open>contextualize(c)\<close> allocates four new objects and returns the last: a proxy over the
  contextualized neuron, whose two properties are the neuron's, with the scope \<open>c\<close> and
  the same owner, cache and relation class. On a neuron with no \<^verbatim>\<open>neighbor\<close> attribute it
  returns the contextualized neuron alone, and no proxy is allocated. Whenever it returns,
  the result is a new address and every object that existed before (the neuron and its
  properties among them) is unchanged.
\<close>

theorem Neuron_contextualize_fresh_proxy:
  "(deref h self = Some (NeuronObj n) \<and> neighbor n = Some na \<and> connection n = Some ca \<and>
    deref h na = Some (NeighborObj nbp) \<and> deref h ca = Some (ConnectionPropertyObj cp) \<longrightarrow>
      Neuron_contextualize h self c =
        Inr (h @ [NeuronObj (n\<lparr>n_ctx := c\<rparr>),
                  NeighborObj (nbp\<lparr>p_ctx := c\<rparr>),
                  ConnectionPropertyObj (cp\<lparr>p_ctx := c\<rparr>),
                  NeuronProxyObj \<lparr>self_neighbor = length h + 1, self_connection = length h + 2,
                                 wrapped = length h\<rparr>],
             length h + 3)) \<and>
   (deref h self = Some (NeuronObj n) \<and> neighbor n = None \<longrightarrow>
      Neuron_contextualize h self c = Inr (h @ [NeuronObj (n\<lparr>n_ctx := c\<rparr>)], length h)) \<and>
   (Neuron_contextualize h self c = Inr (h', r) \<longrightarrow>
      length h \<le> r \<and> r < length h' \<and> take (length h) h' = h \<and>
      (\<forall>a < length h. deref h' a = deref h a))"
proof (intro conjI impI)
  assume a: "deref h self = Some (NeuronObj n) \<and> neighbor n = Some na \<and> connection n = Some ca \<and>
    deref h na = Some (NeighborObj nbp) \<and> deref h ca = Some (ConnectionPropertyObj cp)"
  then have na: "na < length h" "h ! na = NeighborObj nbp"
    and ca: "ca < length h" "h ! ca = ConnectionPropertyObj cp"
    by (auto simp: deref_def split: if_splits)
  from a na ca show "Neuron_contextualize h self c =
        Inr (h @ [NeuronObj (n\<lparr>n_ctx := c\<rparr>),
                  NeighborObj (nbp\<lparr>p_ctx := c\<rparr>),
                  ConnectionPropertyObj (cp\<lparr>p_ctx := c\<rparr>),
                  NeuronProxyObj \<lparr>self_neighbor = length h + 1, self_connection = length h + 2,
                                 wrapped = length h\<rparr>],
             length h + 3)"
    by (simp add: Neuron_contextualize_def Cell_contextualize_def Property_contextualize_def
        alloc_def deref_def nth_append)
next
  assume "deref h self = Some (NeuronObj n) \<and> neighbor n = None"
  then show "Neuron_contextualize h self c = Inr (h @ [NeuronObj (n\<lparr>n_ctx := c\<rparr>)], length h)"
    by (simp add: Neuron_contextualize_def Cell_contextualize_def alloc_def)
next
  assume r: "Neuron_contextualize h self c = Inr (h', r)"
  then obtain ys where h': "h' = h @ ys" and rr: "r = length h + (length ys - 1)" and ys: "ys \<noteq> []"
    by (auto simp: Neuron_contextualize_def Cell_contextualize_def Property_contextualize_def
        alloc_def split: option.splits obj.splits sum.splits prod.splits)
  show "length h \<le> r" using rr by simp
  show "r < length h'" using rr ys h' by (cases ys) simp_all
  show "take (length h) h' = h" using h' by simp
  show "\<forall>a < length h. deref h' a = deref h a" using h' by (simp add: deref_def nth_append)
qed

text \<open>
  The theorem at \<^verbatim>\<open>AVAL\<close> with its two properties, and at a neuron that has none.
\<close>

theorem Neuron_contextualize_fresh_proxy_witness:
  "Neuron_contextualize example_heap 0 (Some ''ctx1'') =
     Inr (example_heap @
            [NeuronObj \<lparr>name = ''AVAL'', n_ctx = Some ''ctx1'', neighbor = Some 1, connection = Some 2\<rparr>,
             NeighborObj (AVAL_neighbor\<lparr>p_ctx := Some ''ctx1''\<rparr>),
             ConnectionPropertyObj (AVAL_connection\<lparr>p_ctx := Some ''ctx1''\<rparr>),
             NeuronProxyObj \<lparr>self_neighbor = 4, self_connection = 5, wrapped = 3\<rparr>], 6) \<and>
   take 3 (example_heap @
            [NeuronObj \<lparr>name = ''AVAL'', n_ctx = Some ''ctx1'', neighbor = Some 1, connection = Some 2\<rparr>,
             NeighborObj (AVAL_neighbor\<lparr>p_ctx := Some ''ctx1''\<rparr>),
             ConnectionPropertyObj (AVAL_connection\<lparr>p_ctx := Some ''ctx1''\<rparr>),
             NeuronProxyObj \<lparr>self_neighbor = 4, self_connection = 5, wrapped = 3\<rparr>]) = example_heap \<and>
   Neuron_contextualize
     [NeuronObj \<lparr>name = ''AVAL'', n_ctx = None, neighbor = None, connection = None\<rparr>] 0
     (Some ''ctx1'') =
     Inr ([NeuronObj \<lparr>name = ''AVAL'', n_ctx = None, neighbor = None, connection = None\<rparr>,
           NeuronObj \<lparr>name = ''AVAL'', n_ctx = Some ''ctx1'', neighbor = None, connection = None\<rparr>], 1)"
proof -
  let ?n = "\<lparr>name = ''AVAL'', n_ctx = None, neighbor = Some 1, connection = Some 2\<rparr>"
  let ?h' = "example_heap @
            [NeuronObj \<lparr>name = ''AVAL'', n_ctx = Some ''ctx1'', neighbor = Some 1, connection = Some 2\<rparr>,
             NeighborObj (AVAL_neighbor\<lparr>p_ctx := Some ''ctx1''\<rparr>),
             ConnectionPropertyObj (AVAL_connection\<lparr>p_ctx := Some ''ctx1''\<rparr>),
             NeuronProxyObj \<lparr>self_neighbor = 4, self_connection = 5, wrapped = 3\<rparr>]"
  let ?m = "\<lparr>name = ''AVAL'', n_ctx = None, neighbor = None, connection = None\<rparr>"
  have 1: "Neuron_contextualize example_heap 0 (Some ''ctx1'') = Inr (?h', 6)"
    using Neuron_contextualize_fresh_proxy
      [of example_heap 0 ?n 1 2 AVAL_neighbor AVAL_connection "Some ''ctx1''" ?h' 6]
    by (simp add: example_heap_cells)
  have 2: "take 3 ?h' = example_heap"
    using Neuron_contextualize_fresh_proxy
      [of example_heap 0 ?n 1 2 AVAL_neighbor AVAL_connection "Some ''ctx1''" ?h' 6] 1
    by (simp add: example_heap_cells)
  have 3: "Neuron_contextualize [NeuronObj ?m] 0 (Some ''ctx1'') =
             Inr ([NeuronObj ?m, NeuronObj (?m\<lparr>n_ctx := Some ''ctx1''\<rparr>)], 1)"
    using Neuron_contextualize_fresh_proxy
      [of "[NeuronObj ?m]" 0 ?m 1 2 AVAL_neighbor AVAL_connection "Some ''ctx1''" ?h' 6]
    by (simp add: deref_def)
  from 1 2 3 show ?thesis by simp
qed

text \<open>
  C7. \<^verbatim>\<open>triples\<close> of a \<^verbatim>\<open>Neighbor\<close> and of a \<^verbatim>\<open>ConnectionProperty\<close> yields the facts of the
  cached relations and no other; with an empty cache it yields nothing. The method
  loads no pattern: the store can enter only through the relation objects' own
  \<^verbatim>\<open>triples\<close>, written \<open>tr db\<close> here, and with an empty cache not even so.
\<close>

theorem triples_cache_only:
  "set (Neighbor_triples (tr db) p kw) = (\<Union>c \<in> set (conns p). set (tr db c kw)) \<and>
   set (ConnectionProperty_triples (tr db) p kw) = (\<Union>c \<in> set (conns p). set (tr db c kw)) \<and>
   Neighbor_triples (tr db) (p\<lparr>conns := []\<rparr>) kw = [] \<and>
   ConnectionProperty_triples (tr db) (p\<lparr>conns := []\<rparr>) kw = []"
  by (simp add: Neighbor_triples_def ConnectionProperty_triples_def)

text \<open>
  C8. When \<^verbatim>\<open>get('pre')\<close> and \<^verbatim>\<open>get('post')\<close> return, each loads one pattern and yields the
  store's answer to it, in the store's order, and \<^verbatim>\<open>get('either')\<close> yields the answer to
  the \<^verbatim>\<open>pre\<close> pattern followed by the answer to the \<^verbatim>\<open>post\<close> pattern.
\<close>

theorem get_either_pre_before_post:
  "ConnectionProperty_get db p ''pre'' kw = Inr (qa, ra) \<Longrightarrow>
   ConnectionProperty_get db p ''post'' kw = Inr (qb, rb) \<Longrightarrow>
     ConnectionProperty_get db p ''either'' kw = Inr (qa @ qb, ra @ rb) \<and>
     (\<exists>q1 q2. qa = [q1] \<and> ra = db q1 \<and> qb = [q2] \<and> rb = db q2)"
  by (auto simp: ConnectionProperty_get_def build_queries_pre build_queries_post
      build_queries_either split: if_splits)

text \<open>
  The theorem at \<^verbatim>\<open>AVAL\<close>: three relations going out, then two coming in.
\<close>

theorem get_either_pre_before_post_witness:
  "ConnectionProperty_get example_db AVAL_connection ''either'' [] =
     Inr ([\<lparr>conn_ctx = None, conn_args = [(''pre_cell'', PyCell ''AVAL'')]\<rparr>,
           \<lparr>conn_ctx = None, conn_args = [(''post_cell'', PyCell ''AVAL'')]\<rparr>],
          [relation None ''AVAL'' ''PVCL'' ''send'',
           relation None ''AVAL'' ''AVBL'' ''gapJunction'',
           relation None ''AVAL'' ''AVAL'' ''send'',
           relation None ''AVBL'' ''AVAL'' ''gapJunction'',
           relation None ''AVAL'' ''AVAL'' ''send''])"
proof -
  have a: "ConnectionProperty_get example_db AVAL_connection ''pre'' [] =
      Inr ([\<lparr>conn_ctx = None, conn_args = [(''pre_cell'', PyCell ''AVAL'')]\<rparr>],
           [relation None ''AVAL'' ''PVCL'' ''send'',
            relation None ''AVAL'' ''AVBL'' ''gapJunction'',
            relation None ''AVAL'' ''AVAL'' ''send''])"
    by (simp add: ConnectionProperty_get_def build_queries_pre AVAL_connection_fields example_db_pre)
  have b: "ConnectionProperty_get example_db AVAL_connection ''post'' [] =
      Inr ([\<lparr>conn_ctx = None, conn_args = [(''post_cell'', PyCell ''AVAL'')]\<rparr>],
           [relation None ''AVBL'' ''AVAL'' ''gapJunction'',
            relation None ''AVAL'' ''AVAL'' ''send''])"
    by (simp add: ConnectionProperty_get_def build_queries_post AVAL_connection_fields example_db_post)
  from get_either_pre_before_post [OF a b] show ?thesis by simp
qed

text \<open>
  C9, at a failing input. \<^verbatim>\<open>set\<close> of a relation object appends it to the cache and
  returns \<^verbatim>\<open>None\<close>, not the relation. \<^verbatim>\<open>set\<close> of a value that is no relation object fails
  with the \<^verbatim>\<open>AssertionError\<close> of the \<^verbatim>\<open>assert\<close>.
\<close>

theorem ConnectionProperty_set_returns_None:
  "ConnectionProperty_set AVAL_connection
     (ConnectionObj (relation None ''AVAL'' ''AVBL'' ''send'')) [] =
     Inr (AVAL_connection\<lparr>conns := [relation None ''AVAL'' ''AVBL'' ''send'']\<rparr>, ValueObj PyNone) \<and>
   ConnectionProperty_set AVAL_connection (ValueObj (PyStr ''AVBL'')) [] = Inl AssertionError"
  by (simp add: ConnectionProperty_set_def AVAL_connection_fields)

text \<open>
  C10. After any sequence of \<^verbatim>\<open>set\<close> calls on a \<^verbatim>\<open>ConnectionProperty\<close>, \<^verbatim>\<open>get\<close> and \<^verbatim>\<open>count\<close>
  return what they returned before, for every store, direction and keywords (patterns
  loaded included). The relations that were set show in \<^verbatim>\<open>triples\<close> only.
\<close>

theorem set_invisible_to_get_and_count:
  "ConnectionProperty_set_all p xs = Inr p' \<Longrightarrow>
     ConnectionProperty_get db p' d kw = ConnectionProperty_get db p d kw \<and>
     ConnectionProperty_count db p' d syn kw = ConnectionProperty_count db p d syn kw \<and>
     ConnectionProperty_triples tr p' kw =
       ConnectionProperty_triples tr p kw @
       concat (map (\<lambda>c. tr c kw)
         (concat (map (\<lambda>x. case fst x of ConnectionObj c \<Rightarrow> [c] | ValueObj v \<Rightarrow> []) xs)))"
  by (simp add: ConnectionProperty_get_def ConnectionProperty_count_def
      ConnectionProperty_triples_def ConnectionProperty_set_all_frame
      ConnectionProperty_set_all_conns)

text \<open>
  The theorem at \<^verbatim>\<open>AVAL\<close>: after \<^verbatim>\<open>set\<close> of a relation to \<^verbatim>\<open>DB1\<close>, \<^verbatim>\<open>get('pre')\<close> and
  \<^verbatim>\<open>count('pre')\<close> still answer from the store alone, and \<^verbatim>\<open>triples\<close> shows the relation.
\<close>

theorem set_invisible_to_get_and_count_witness:
  "ConnectionProperty_set_all AVAL_connection
     [(ConnectionObj (relation None ''AVAL'' ''DB1'' ''send''), [])] =
     Inr (AVAL_connection\<lparr>conns := [relation None ''AVAL'' ''DB1'' ''send'']\<rparr>) \<and>
   ConnectionProperty_get example_db
     (AVAL_connection\<lparr>conns := [relation None ''AVAL'' ''DB1'' ''send'']\<rparr>) ''pre'' [] =
     Inr ([\<lparr>conn_ctx = None, conn_args = [(''pre_cell'', PyCell ''AVAL'')]\<rparr>],
          [relation None ''AVAL'' ''PVCL'' ''send'',
           relation None ''AVAL'' ''AVBL'' ''gapJunction'',
           relation None ''AVAL'' ''AVAL'' ''send'']) \<and>
   ConnectionProperty_count example_db
     (AVAL_connection\<lparr>conns := [relation None ''AVAL'' ''DB1'' ''send'']\<rparr>) ''pre'' PyNone [] =
     Inr ([\<lparr>conn_ctx = None, conn_args = [(''pre_cell'', PyCell ''AVAL'')]\<rparr>], 3) \<and>
   ConnectionProperty_triples (\<lambda>c kw. [c])
     (AVAL_connection\<lparr>conns := [relation None ''AVAL'' ''DB1'' ''send'']\<rparr>) [] =
     [relation None ''AVAL'' ''DB1'' ''send'']"
proof -
  let ?p' = "AVAL_connection\<lparr>conns := [relation None ''AVAL'' ''DB1'' ''send'']\<rparr>"
  have s: "ConnectionProperty_set_all AVAL_connection
     [(ConnectionObj (relation None ''AVAL'' ''DB1'' ''send''), [])] = Inr ?p'"
    by (simp add: ConnectionProperty_set_def AVAL_connection_fields)
  have g: "ConnectionProperty_get example_db AVAL_connection ''pre'' [] =
      Inr ([\<lparr>conn_ctx = None, conn_args = [(''pre_cell'', PyCell ''AVAL'')]\<rparr>],
           [relation None ''AVAL'' ''PVCL'' ''send'',
            relation None ''AVAL'' ''AVBL'' ''gapJunction'',
            relation None ''AVAL'' ''AVAL'' ''send''])"
    by (simp add: ConnectionProperty_get_def build_queries_pre AVAL_connection_fields example_db_pre)
  have c: "ConnectionProperty_count example_db AVAL_connection ''pre'' PyNone [] =
      Inr ([\<lparr>conn_ctx = None, conn_args = [(''pre_cell'', PyCell ''AVAL'')]\<rparr>], 3)"
    by (simp add: ConnectionProperty_count_length build_queries_pre AVAL_connection_fields
        example_db_pre)
  from set_invisible_to_get_and_count
    [OF s, where db = example_db and d = "''pre''" and kw = "[]" and syn = PyNone
       and tr = "\<lambda>c kw. [c]"] s g c
  show ?thesis by (simp add: ConnectionProperty_triples_def AVAL_connection_fields)
qed

end
